theory Spec2Isabelle
  imports Complex_Main "HOL-Library.AList" "HOL-Library.Sublist"
begin

section \<open>JavaScript values\<close>

text \<open>
  A thrown JavaScript error, as far as \<^verbatim>\<open>S3Database.js\<close> looks at it: the code reads
  \<^verbatim>\<open>err.name\<close> and \<^verbatim>\<open>err.message\<close> and nothing else.
\<close>

datatype js_error = JsError (err_name: string) (err_message: string)

text \<open>
  The values \<^verbatim>\<open>JSON.parse\<close> can return. An object is the list of its own properties in
  enumeration order (a JavaScript object has no duplicate property names). Numbers are
  carried as rationals: every JSON number literal and every finite double is one.
\<close>

datatype json =
    JNull
  | JBool bool
  | JNumber rat
  | JString string
  | JArray "json list"
  | JObject "(string \<times> json) list"

text \<open>
  The result of a property read is a JavaScript value that may be \<^verbatim>\<open>undefined\<close>:
  \<open>None\<close> stands for \<^verbatim>\<open>undefined\<close>.
\<close>

type_synonym js_value = "json option"

text \<open>JavaScript truthiness (\<^verbatim>\<open>!x\<close> is its negation).\<close>

fun truthy :: "js_value \<Rightarrow> bool" where
  "truthy None = False"
| "truthy (Some JNull) = False"
| "truthy (Some (JBool b)) = b"
| "truthy (Some (JNumber n)) = (n \<noteq> 0)"
| "truthy (Some (JString s)) = (s \<noteq> [])"
| "truthy (Some (JArray xs)) = True"
| "truthy (Some (JObject kvs)) = True"

text \<open>
  \<^verbatim>\<open>a || b\<close> where \<open>b\<close> is a defined value: \<open>a\<close> when \<open>a\<close> is truthy, else \<open>b\<close>.
\<close>

definition js_or :: "js_value \<Rightarrow> json \<Rightarrow> json" where
  "js_or a b = (if truthy a then the a else b)"

text \<open>
  The property read \<^verbatim>\<open>x.p\<close> for the property names the code reads
  (\<^verbatim>\<open>bucketName\<close>, \<^verbatim>\<open>accessKey\<close>, \<^verbatim>\<open>secretKey\<close>): none of them is an array index,
  \<^verbatim>\<open>length\<close>, or a property of a built-in prototype, so on anything but an object
  the read gives \<^verbatim>\<open>undefined\<close>, and on \<^verbatim>\<open>null\<close> it throws a TypeError.
\<close>

fun own_property :: "json \<Rightarrow> string \<Rightarrow> js_value" where
  "own_property (JObject kvs) p = map_of kvs p"
| "own_property _ p = None"

definition TypeError :: "string \<Rightarrow> js_error" where
  "TypeError p = JsError ''TypeError''
     (''Cannot read properties of null (reading '' @ [CHR 0x27] @ p @ [CHR 0x27] @ '')'')"

definition property :: "json \<Rightarrow> string \<Rightarrow> js_error + js_value" where
  "property x p = (if x = JNull then Inl (TypeError p) else Inr (own_property x p))"

section \<open>The process: environment and JSON functions\<close>

text \<open>
  What the module takes from the JavaScript process: the environment variables and the
  two JSON functions. \<^verbatim>\<open>JSON.parse\<close> either returns a value or throws a SyntaxError,
  whose message is the \<open>Inl\<close> here.
\<close>

record runtime =
  process_env :: "string \<rightharpoonup> string"
  JSON_stringify :: "json \<Rightarrow> string"
  JSON_parse :: "string \<Rightarrow> string + json"

text \<open>\<^verbatim>\<open>process.env.X || d\<close>: an unset or empty variable gives the default.\<close>

definition env_or :: "runtime \<Rightarrow> string \<Rightarrow> string \<Rightarrow> string" where
  "env_or rt x d = (case process_env rt x of None \<Rightarrow> d | Some v \<Rightarrow> if v = [] then d else v)"

definition s3endPoint :: "runtime \<Rightarrow> string" where
  "s3endPoint rt = env_or rt ''AWS_S3_ENDPOINT'' ''http://127.0.0.1:9000''"

definition s3Region :: "runtime \<Rightarrow> string" where
  "s3Region rt = env_or rt ''AWS_REGION'' ''us-east-1''"

definition s3AccessKeyDB :: "runtime \<Rightarrow> string" where
  "s3AccessKeyDB rt = env_or rt ''AWS_ACCESS_KEY_ID'' ''minioadmin''"

definition s3SecretKeyDB :: "runtime \<Rightarrow> string" where
  "s3SecretKeyDB rt = env_or rt ''AWS_SECRET_ACCESS_KEY'' ''minioadmin''"

definition s3BucketDB :: "runtime \<Rightarrow> string" where
  "s3BucketDB rt = env_or rt ''AWS_S3_BUCKET'' ''media''"

section \<open>The object store and the console\<close>

text \<open>
  The commands the class sends. A listing request carries the number of the page it asks
  for (the continuation token of the paginator).
\<close>

datatype command =
    GetObjectCommand string string
  | PutObjectCommand string string string
  | DeleteObjectCommand string string
  | ListObjectsV2Command string string nat nat

datatype log_arg = ArgErr js_error | ArgStr string | ArgJson json

datatype log_entry = ConsoleError string "log_arg list" | ConsoleLog string "log_arg list"

text \<open>
  Everything outside the class instance: the objects of the backend, keyed by bucket and
  key, in the backend's enumeration order; the failures the backend or the transport
  answers a command with (\<open>fault\<close>), and those that break the body stream of a fetched
  object (\<open>stream_fault\<close>); the trace of every command sent; the console; the clock.
\<close>

record world =
  objects :: "((string \<times> string) \<times> string) list"
  fault :: "command \<Rightarrow> js_error option"
  stream_fault :: "string \<times> string \<Rightarrow> js_error option"
  requests :: "command list"
  console :: "log_entry list"
  now :: string

text \<open>
  An asynchronous call that may throw: it returns the error or the value, and the world
  after it. \<open>await_then\<close> is sequencing, \<open>try_catch\<close> is \<^verbatim>\<open>try { } catch (err) { }\<close>.
\<close>

type_synonym 'a io = "world \<Rightarrow> (js_error + 'a) \<times> world"

definition return_io :: "'a \<Rightarrow> 'a io" where
  "return_io x = (\<lambda>w. (Inr x, w))"

definition throw_io :: "js_error \<Rightarrow> 'a io" where
  "throw_io e = (\<lambda>w. (Inl e, w))"

definition await_then :: "'a io \<Rightarrow> ('a \<Rightarrow> 'b io) \<Rightarrow> 'b io" where
  "await_then m f = (\<lambda>w. case m w of (Inl e, w') \<Rightarrow> (Inl e, w') | (Inr x, w') \<Rightarrow> f x w')"

definition try_catch :: "'a io \<Rightarrow> (js_error \<Rightarrow> 'a io) \<Rightarrow> 'a io" where
  "try_catch m h = (\<lambda>w. case m w of (Inl e, w') \<Rightarrow> h e w' | (Inr x, w') \<Rightarrow> (Inr x, w'))"

definition lift_io :: "js_error + 'a \<Rightarrow> 'a io" where
  "lift_io r = (\<lambda>w. (r, w))"

definition console_error :: "string \<Rightarrow> log_arg list \<Rightarrow> unit io" where
  "console_error msg args = (\<lambda>w. (Inr (), w\<lparr>console := console w @ [ConsoleError msg args]\<rparr>))"

definition console_log :: "string \<Rightarrow> log_arg list \<Rightarrow> unit io" where
  "console_log msg args = (\<lambda>w. (Inr (), w\<lparr>console := console w @ [ConsoleLog msg args]\<rparr>))"

text \<open>
  The body of a fetched object is a stream: chunks, then the end or an error.
\<close>

datatype stream = Stream "string list" "js_error option"

datatype get_object_output = GetObjectOutput (Body: stream)

definition NoSuchKey :: js_error where
  "NoSuchKey = JsError ''NoSuchKey'' ''The specified key does not exist.''"

text \<open>
  \<^verbatim>\<open>s3Client.send(new GetObjectCommand({Bucket, Key}))\<close>: the command is recorded; an
  injected fault is thrown; a missing object is the backend's NoSuchKey error.
\<close>

definition send_GetObject :: "string \<Rightarrow> string \<Rightarrow> get_object_output io" where
  "send_GetObject b k = (\<lambda>w.
     let w' = w\<lparr>requests := requests w @ [GetObjectCommand b k]\<rparr> in
     case fault w (GetObjectCommand b k) of
       Some e \<Rightarrow> (Inl e, w')
     | None \<Rightarrow>
        (case map_of (objects w) (b, k) of
           None \<Rightarrow> (Inl NoSuchKey, w')
         | Some body \<Rightarrow> (Inr (GetObjectOutput (Stream [body] (stream_fault w (b, k)))), w')))"

text \<open>
  \<^verbatim>\<open>s3Client.send(new PutObjectCommand({Bucket, Key, Body}))\<close>: writes unconditionally,
  replacing the object at the key if there is one.
\<close>

definition send_PutObject :: "string \<Rightarrow> string \<Rightarrow> string \<Rightarrow> unit io" where
  "send_PutObject b k body = (\<lambda>w.
     let w' = w\<lparr>requests := requests w @ [PutObjectCommand b k body]\<rparr> in
     case fault w (PutObjectCommand b k body) of
       Some e \<Rightarrow> (Inl e, w')
     | None \<Rightarrow> (Inr (), w'\<lparr>objects := AList.update (b, k) body (objects w)\<rparr>))"

definition send_DeleteObject :: "string \<Rightarrow> string \<Rightarrow> unit io" where
  "send_DeleteObject b k = (\<lambda>w.
     let w' = w\<lparr>requests := requests w @ [DeleteObjectCommand b k]\<rparr> in
     case fault w (DeleteObjectCommand b k) of
       Some e \<Rightarrow> (Inl e, w')
     | None \<Rightarrow> (Inr (), w'\<lparr>objects := AList.delete (b, k) (objects w)\<rparr>))"

text \<open>
  \<^verbatim>\<open>streamToString\<close>: collects the chunks and resolves with their concatenation at the end
  of the stream, or rejects with the stream's error.
\<close>

definition streamToString :: "stream \<Rightarrow> string io" where
  "streamToString s = (case s of
     Stream chunks None \<Rightarrow> return_io (concat chunks)
   | Stream chunks (Some err) \<Rightarrow> throw_io err)"

definition JSON_parse_io :: "runtime \<Rightarrow> string \<Rightarrow> json io" where
  "JSON_parse_io rt s = (case JSON_parse rt s of
     Inl msg \<Rightarrow> throw_io (JsError ''SyntaxError'' msg)
   | Inr v \<Rightarrow> return_io v)"

subsection \<open>Paginated listing\<close>

text \<open>The keys of a bucket that start with a prefix, in enumeration order.\<close>

definition list_keys :: "world \<Rightarrow> string \<Rightarrow> string \<Rightarrow> string list" where
  "list_keys w b p = map (snd \<circ> fst) (filter (\<lambda>((b', k), body). b' = b \<and> prefix p k) (objects w))"

function chunks :: "nat \<Rightarrow> 'a list \<Rightarrow> 'a list list" where
  "chunks n xs = (if n = 0 \<or> xs = [] then [] else take n xs # chunks n (drop n xs))"
  by pat_completeness auto
termination
  by (relation "measure (\<lambda>(n, xs). length xs)") auto

declare chunks.simps [simp del]

text \<open>
  One page of a listing; \<^verbatim>\<open>Contents\<close> holds the \<^verbatim>\<open>Key\<close> of each listed object and is
  \<^verbatim>\<open>undefined\<close> when nothing matches.
\<close>

datatype list_objects_output = ListObjectsV2Output (Contents: "string list option")

definition list_pages :: "world \<Rightarrow> string \<Rightarrow> string \<Rightarrow> nat \<Rightarrow> list_objects_output list" where
  "list_pages w b p maxKeys =
     (let ks = list_keys w b p in
      if ks = [] then [ListObjectsV2Output None]
      else map (\<lambda>c. ListObjectsV2Output (Some c)) (chunks maxKeys ks))"

definition send_ListObjectsV2 :: "string \<Rightarrow> string \<Rightarrow> nat \<Rightarrow> nat \<Rightarrow> list_objects_output \<Rightarrow> list_objects_output io" where
  "send_ListObjectsV2 b p maxKeys i page = (\<lambda>w.
     let w' = w\<lparr>requests := requests w @ [ListObjectsV2Command b p maxKeys i]\<rparr> in
     case fault w (ListObjectsV2Command b p maxKeys i) of
       Some e \<Rightarrow> (Inl e, w')
     | None \<Rightarrow> (Inr page, w'))"

text \<open>
  \<^verbatim>\<open>paginateListObjectsV2\<close>: the requests of the paginator, one per page, each sent when
  the loop asks for the next page. The scans only fetch between two pages, so the pages
  are those of the store the scan starts in.
\<close>

definition paginateListObjectsV2 :: "world \<Rightarrow> string \<Rightarrow> string \<Rightarrow> nat \<Rightarrow> list_objects_output io list" where
  "paginateListObjectsV2 w b p maxKeys =
     map (\<lambda>(i, page). send_ListObjectsV2 b p maxKeys i page)
         (enumerate 0 (list_pages w b p maxKeys))"

text \<open>\<^verbatim>\<open>for (const x of xs)\<close> and \<^verbatim>\<open>for await (const page of paginator)\<close>, the loop
  variable \<^verbatim>\<open>rows\<close> passed along.\<close>

fun for_of :: "'a list \<Rightarrow> ('a \<Rightarrow> 'r \<Rightarrow> 'r io) \<Rightarrow> 'r \<Rightarrow> 'r io" where
  "for_of [] body rows = return_io rows"
| "for_of (x # xs) body rows = await_then (body x rows) (for_of xs body)"

fun for_await :: "'p io list \<Rightarrow> ('p \<Rightarrow> 'r \<Rightarrow> 'r io) \<Rightarrow> 'r \<Rightarrow> 'r io" where
  "for_await [] body rows = return_io rows"
| "for_await (p # ps) body rows =
     await_then p (\<lambda>page. await_then (body page rows) (for_await ps body))"

section \<open>The class S3Database\<close>

text \<open>
  The client is that of the AWS SDK for JavaScript, version 3: the module imports its
  command classes and \<^verbatim>\<open>paginateListObjectsV2\<close> from \<^verbatim>\<open>@aws-sdk/client-s3\<close>. This client
  is constructed with credentials that are an object or \<^verbatim>\<open>undefined\<close>, and in the
  configuration it exposes as \<^verbatim>\<open>s3Client.config\<close> it puts a provider function in their
  place, always: a function that resolves to the credentials given, or to those of the
  default chain when none were given.
\<close>

datatype credentials_provider = Provider "(string \<times> json) list option"

record client_config =
  region :: string
  endpoint :: string
  credentials :: credentials_provider
  forcePathStyle :: bool

definition S3Client ::
  "string \<Rightarrow> string \<Rightarrow> (string \<times> json) list option \<Rightarrow> bool \<Rightarrow> client_config" where
  "S3Client region_given endpoint_given credentials_given forcePathStyle_given =
     \<lparr> region = region_given, endpoint = endpoint_given,
       credentials = Provider credentials_given, forcePathStyle = forcePathStyle_given \<rparr>"

text \<open>
  The instance: the configuration of its client, its bucket, the set of initialised
  tables.
\<close>

record s3database =
  s3Client :: client_config
  bucket :: string
  tables :: "string set"

text \<open>
  The constructor. An argument that is \<open>None\<close> is \<^verbatim>\<open>undefined\<close> and takes its default.
  The client is given an object with both keys when both are truthy, and
  \<^verbatim>\<open>credentials: undefined\<close> otherwise.
\<close>

definition constructor ::
  "runtime \<Rightarrow> string option \<Rightarrow> string option \<Rightarrow> string option \<Rightarrow> js_value \<Rightarrow> js_value
     \<Rightarrow> s3database" where
  "constructor rt endpoint_arg bucket_arg region_arg accessKey secretKey =
     \<lparr> s3Client = S3Client
         (case region_arg of None \<Rightarrow> s3Region rt | Some r \<Rightarrow> r)
         (case endpoint_arg of None \<Rightarrow> s3endPoint rt | Some e \<Rightarrow> e)
         (if truthy accessKey \<and> truthy secretKey
          then Some [(''accessKeyId'', the accessKey), (''secretAccessKey'', the secretKey)]
          else None)
         True,
       bucket = (case bucket_arg of None \<Rightarrow> s3BucketDB rt | Some b \<Rightarrow> b),
       tables = {} \<rparr>"

subsection \<open>ensureTable\<close>

definition metadata_key :: "string \<Rightarrow> string" where
  "metadata_key tableName = tableName @ ''/_metadata.json''"

definition metadata_doc :: "string \<Rightarrow> string \<Rightarrow> json" where
  "metadata_doc tableName created =
     JObject [(''tableName'', JString tableName), (''created'', JString created)]"

definition ensureTable :: "runtime \<Rightarrow> string \<Rightarrow> s3database \<Rightarrow> (s3database) io" where
  "ensureTable rt tableName db =
     (if tableName \<in> tables db then return_io db
      else
        try_catch
          (await_then
             (try_catch
                (await_then (send_GetObject (bucket db) (metadata_key tableName)) (\<lambda>_. return_io ()))
                (\<lambda>err w. send_PutObject (bucket db) (metadata_key tableName)
                            (JSON_stringify rt (metadata_doc tableName (now w))) w))
             (\<lambda>_. return_io (db\<lparr>tables := insert tableName (tables db)\<rparr>)))
          (\<lambda>err. await_then
                    (console_error (''Error ensuring table '' @ tableName @ '':'') [ArgErr err])
                    (\<lambda>_. throw_io err)))"

subsection \<open>Scans\<close>

record row =
  key :: string
  data :: json

definition read_item_with_key :: "runtime \<Rightarrow> s3database \<Rightarrow> string \<Rightarrow> row list \<Rightarrow> row list io" where
  "read_item_with_key rt db obj_Key rows =
     try_catch
       (await_then (send_GetObject (bucket db) obj_Key) (\<lambda>itemResponse.
        await_then (streamToString (Body itemResponse)) (\<lambda>dataStr.
        await_then (JSON_parse_io rt dataStr) (\<lambda>data.
        return_io (rows @ [\<lparr>key = obj_Key, data = data\<rparr>])))))
       (\<lambda>err. await_then (console_error (''Error reading '' @ obj_Key @ '':'') [ArgErr err])
                 (\<lambda>_. return_io rows))"

definition getS3DataWithKey :: "runtime \<Rightarrow> string \<Rightarrow> s3database \<Rightarrow> row list io" where
  "getS3DataWithKey rt Prefix db = (\<lambda>w.
     for_await (paginateListObjectsV2 w (bucket db) Prefix 1000)
       (\<lambda>page rows. case Contents page of
                       None \<Rightarrow> return_io rows
                     | Some objs \<Rightarrow> for_of objs (read_item_with_key rt db) rows)
       [] w)"

definition read_item :: "runtime \<Rightarrow> s3database \<Rightarrow> string \<Rightarrow> json list \<Rightarrow> json list io" where
  "read_item rt db obj_Key rows =
     try_catch
       (await_then (send_GetObject (bucket db) obj_Key) (\<lambda>itemResponse.
        await_then (streamToString (Body itemResponse)) (\<lambda>dataStr.
        await_then (JSON_parse_io rt dataStr) (\<lambda>data.
        return_io (rows @ [data])))))
       (\<lambda>err. await_then (console_error (''Error reading '' @ obj_Key @ '':'') [ArgErr err])
                 (\<lambda>_. return_io rows))"

definition getS3Data :: "runtime \<Rightarrow> string \<Rightarrow> s3database \<Rightarrow> json list io" where
  "getS3Data rt Prefix db = (\<lambda>w.
     for_await (paginateListObjectsV2 w (bucket db) Prefix 1000)
       (\<lambda>page rows. case Contents page of
                       None \<Rightarrow> return_io rows
                     | Some objs \<Rightarrow> for_of objs (read_item rt db) rows)
       [] w)"

subsection \<open>getPoolCredentials\<close>

record pool_credentials =
  bucketName :: json
  accessKey :: json
  secretKey :: json

text \<open>
  \<^verbatim>\<open>this.s3Client.config.credentials.p\<close> for the two names the code reads. The value
  read from is the provider function, and a function has neither an \<^verbatim>\<open>accessKeyId\<close>
  nor a \<^verbatim>\<open>secretAccessKey\<close> property, of its own or inherited: the read gives
  \<^verbatim>\<open>undefined\<close>, whatever credentials the provider resolves to.
\<close>

definition credentials_property :: "s3database \<Rightarrow> string \<Rightarrow> js_value" where
  "credentials_property db p = (case credentials (s3Client db) of Provider given \<Rightarrow> None)"

text \<open>The logging of a rejected pool record (lines 151 to 157).\<close>

definition log_missing :: "string \<Rightarrow> json \<Rightarrow> unit io" where
  "log_missing profileId poolData =
     (if truthy (Some poolData) then
        console_error (''getPoolCredentials: Pool '' @ profileId @ '' has missing credentials:'')
          [ArgJson poolData]
      else
        await_then (lift_io (property poolData ''bucketName'')) (\<lambda>b.
        await_then (if \<not> truthy b
                    then console_error (''getPoolCredentials: Pool '' @ profileId @ '' missing bucketName'') []
                    else return_io ()) (\<lambda>_.
        await_then (lift_io (property poolData ''accessKey'')) (\<lambda>a.
        await_then (if \<not> truthy a
                    then console_error (''getPoolCredentials: Pool '' @ profileId @ '' missing accessKey'') []
                    else return_io ()) (\<lambda>_.
        await_then (lift_io (property poolData ''secretKey'')) (\<lambda>s.
        (if \<not> truthy s
         then console_error (''getPoolCredentials: Pool '' @ profileId @ '' missing secretKey'') []
         else return_io ())))))))"

text \<open>
  The condition of line 150, \<^verbatim>\<open>!poolData || !poolData.bucketName || !poolData.accessKey ||
  !poolData.secretKey\<close>: the reads happen only on a truthy \<^verbatim>\<open>poolData\<close>, which is not
  \<^verbatim>\<open>null\<close>, so none of them throws.
\<close>

definition pool_invalid :: "json \<Rightarrow> bool" where
  "pool_invalid poolData =
     (\<not> truthy (Some poolData) \<or> \<not> truthy (own_property poolData ''bucketName'')
      \<or> \<not> truthy (own_property poolData ''accessKey'')
      \<or> \<not> truthy (own_property poolData ''secretKey''))"

definition getPoolCredentials ::
  "runtime \<Rightarrow> string option \<Rightarrow> s3database \<Rightarrow> pool_credentials option io" where
  "getPoolCredentials rt profileId db =
     (if profileId = None \<or> profileId = Some [] \<or> profileId = Some ''default'' then
        return_io (Some
          \<lparr> bucketName = JString (bucket db),
            accessKey = js_or (credentials_property db ''accessKeyId'') (JString (s3AccessKeyDB rt)),
            secretKey = js_or (credentials_property db ''secretAccessKey'')
                          (JString (s3SecretKeyDB rt)) \<rparr>)
      else
        try_catch
          (await_then (console_log ''getPoolCredentials: Looking up pool:'' [ArgStr (the profileId)]) (\<lambda>_.
           try_catch
             (await_then (send_GetObject (bucket db) (''pools/'' @ the profileId @ ''.json'')) (\<lambda>response.
              await_then (streamToString (Body response)) (\<lambda>dataStr.
              await_then (JSON_parse_io rt dataStr) (\<lambda>poolData.
              if pool_invalid poolData then
                await_then (log_missing (the profileId) poolData) (\<lambda>_. return_io None)
              else
                return_io (Some
                  \<lparr> bucketName = js_or (own_property poolData ''bucketName'') (JString (s3BucketDB rt)),
                    accessKey = js_or (own_property poolData ''accessKey'') (JString (s3AccessKeyDB rt)),
                    secretKey = js_or (own_property poolData ''secretKey'') (JString (s3SecretKeyDB rt)) \<rparr>)))))
             (\<lambda>err. if err_name err = ''NoSuchKey'' then
                       await_then
                         (console_error (''getPoolCredentials: Error with Pool '' @ the profileId
                                          @ '' not found with error:'')
                            [ArgStr (err_name err), ArgStr (err_message err)])
                         (\<lambda>_. return_io None)
                     else throw_io err)))
          (\<lambda>err. await_then
                    (console_error (''getPoolCredentials: Error getting pool credentials for ''
                                     @ the profileId @ '':'') [ArgErr err])
                    (\<lambda>_. return_io None)))"

subsection \<open>get, put, delete\<close>

definition get :: "runtime \<Rightarrow> string \<Rightarrow> s3database \<Rightarrow> json option io" where
  "get rt k db =
     try_catch
       (try_catch
          (await_then (send_GetObject (bucket db) k) (\<lambda>response.
           await_then (streamToString (Body response)) (\<lambda>dataStr.
           await_then (JSON_parse_io rt dataStr) (\<lambda>data.
           return_io (Some data)))))
          (\<lambda>err. if err_name err = ''NoSuchKey'' then
                    await_then
                      (console_error (''Error with key '' @ k @ '' not found with error:'')
                         [ArgStr (err_name err), ArgStr (err_message err)])
                      (\<lambda>_. return_io None)
                  else throw_io err))
       (\<lambda>err. await_then (console_error (''Error getting key  '' @ k @ '':'') [ArgErr err])
                 (\<lambda>_. return_io None))"

definition put :: "runtime \<Rightarrow> string \<Rightarrow> json \<Rightarrow> s3database \<Rightarrow> unit io" where
  "put rt k d db =
     try_catch
       (send_PutObject (bucket db) k (JSON_stringify rt d))
       (\<lambda>err. await_then (console_error (''Error putting data into S3 for key '' @ k @ '':'') [ArgErr err])
                 (\<lambda>_. throw_io err))"

definition delete :: "string \<Rightarrow> s3database \<Rightarrow> unit io" where
  "delete k db =
     try_catch
       (send_DeleteObject (bucket db) k)
       (\<lambda>err. await_then (console_error (''Error deleting data from S3 for key '' @ k @ '':'') [ArgErr err])
                 (\<lambda>_. throw_io err))"

section \<open>Notions the properties are stated with\<close>

text \<open>A scan with keys, seen as a scan without: each row loses its key.\<close>

definition drop_keys :: "(js_error + row list) \<times> world \<Rightarrow> (js_error + json list) \<times> world" where
  "drop_keys r = (map_sum id (map data) (fst r), snd r)"

text \<open>The number of objects the store holds under the sentinel key of a table.\<close>

definition sentinel_count :: "world \<Rightarrow> string \<Rightarrow> string \<Rightarrow> nat" where
  "sentinel_count w b tableName =
     length (filter (\<lambda>(bk, body). bk = (b, metadata_key tableName)) (objects w))"

text \<open>
  What fetching, reading and parsing the object at a key gives in a world: the parsed
  document, or the error the item's \<^verbatim>\<open>try\<close> block ends in.
\<close>

definition fetch_parse :: "runtime \<Rightarrow> world \<Rightarrow> string \<Rightarrow> string \<Rightarrow> js_error + json" where
  "fetch_parse rt w b k =
     (case fault w (GetObjectCommand b k) of
        Some e \<Rightarrow> Inl e
      | None \<Rightarrow>
         (case map_of (objects w) (b, k) of
            None \<Rightarrow> Inl NoSuchKey
          | Some body \<Rightarrow>
             (case stream_fault w (b, k) of
                Some e \<Rightarrow> Inl e
              | None \<Rightarrow>
                 (case JSON_parse rt body of
                    Inl msg \<Rightarrow> Inl (JsError ''SyntaxError'' msg)
                  | Inr v \<Rightarrow> Inr v))))"

text \<open>The rows and the console lines a scan of the keys \<open>ks\<close> produces.\<close>

definition rows_of :: "runtime \<Rightarrow> world \<Rightarrow> string \<Rightarrow> string list \<Rightarrow> row list" where
  "rows_of rt w b ks =
     concat (map (\<lambda>k. case fetch_parse rt w b k of
                         Inl e \<Rightarrow> []
                       | Inr d \<Rightarrow> [\<lparr>key = k, data = d\<rparr>]) ks)"

definition logs_of :: "runtime \<Rightarrow> world \<Rightarrow> string \<Rightarrow> string list \<Rightarrow> log_entry list" where
  "logs_of rt w b ks =
     concat (map (\<lambda>k. case fetch_parse rt w b k of
                         Inl e \<Rightarrow> [ConsoleError (''Error reading '' @ k @ '':'') [ArgErr e]]
                       | Inr d \<Rightarrow> []) ks)"

text \<open>
  The objects of a bucket under a prefix, each with its key and body; the documents
  among them whose body parses; the console line of each one whose body does not.
\<close>

definition objects_under :: "world \<Rightarrow> string \<Rightarrow> string \<Rightarrow> (string \<times> string) list" where
  "objects_under w b p =
     map (\<lambda>((b', k), body). (k, body))
       (filter (\<lambda>((b', k), body). b' = b \<and> prefix p k) (objects w))"

definition parsed_documents :: "runtime \<Rightarrow> (string \<times> string) list \<Rightarrow> json list" where
  "parsed_documents rt kbs =
     concat (map (\<lambda>(k, body). case JSON_parse rt body of Inl msg \<Rightarrow> [] | Inr d \<Rightarrow> [d]) kbs)"

definition parse_failures :: "runtime \<Rightarrow> (string \<times> string) list \<Rightarrow> log_entry list" where
  "parse_failures rt kbs =
     concat (map (\<lambda>(k, body). case JSON_parse rt body of
                    Inl msg \<Rightarrow> [ConsoleError (''Error reading '' @ k @ '':'')
                                 [ArgErr (JsError ''SyntaxError'' msg)]]
                  | Inr d \<Rightarrow> []) kbs)"

text \<open>The keys of a page, and the commands a scan of the pages from number \<open>j\<close> sends.\<close>

definition page_keys :: "list_objects_output \<Rightarrow> string list" where
  "page_keys page = (case Contents page of None \<Rightarrow> [] | Some objs \<Rightarrow> objs)"

definition scan_requests :: "string \<Rightarrow> string \<Rightarrow> nat \<Rightarrow> nat \<Rightarrow> list_objects_output list \<Rightarrow> command list" where
  "scan_requests b p maxKeys j pages =
     concat (map (\<lambda>(i, page). ListObjectsV2Command b p maxKeys i
                                  # map (GetObjectCommand b) (page_keys page))
                 (enumerate j pages))"

section \<open>A concrete process, store and instance\<close>

text \<open>
  A process with no variable set in its environment, whose JSON functions agree with
  JavaScript's on the texts and the values the scenarios below use: every other text is
  rejected, and every other value is written as \<^verbatim>\<open>null\<close>.
\<close>

definition example_texts :: "(string \<times> json) list" where
  \<open>example_texts =
     [(''null'', JNull),
      (''{"id":7}'', JObject [(''id'', JNumber 7)]),
      (''{"id":8}'', JObject [(''id'', JNumber 8)]),
      (''{"tableName":"orders","created":"2024-01-01T00:00:00.000Z"}'',
         JObject [(''tableName'', JString ''orders''),
                  (''created'', JString ''2024-01-01T00:00:00.000Z'')]),
      (''{"tableName":"orders","created":"2025-06-30T12:00:00.000Z"}'',
         JObject [(''tableName'', JString ''orders''),
                  (''created'', JString ''2025-06-30T12:00:00.000Z'')]),
      (''{"bucketName":"acme-media","accessKey":"AK1","secretKey":"SK1"}'',
         JObject [(''bucketName'', JString ''acme-media''), (''accessKey'', JString ''AK1''),
                  (''secretKey'', JString ''SK1'')]),
      (''{"bucketName":"","accessKey":"AK1","secretKey":"SK1"}'',
         JObject [(''bucketName'', JString []), (''accessKey'', JString ''AK1''),
                  (''secretKey'', JString ''SK1'')]),
      (''{"bucketName":"acme-media","accessKey":"AK1"}'',
         JObject [(''bucketName'', JString ''acme-media''), (''accessKey'', JString ''AK1'')])]\<close>

definition example_parse :: "string \<Rightarrow> string + json" where
  "example_parse s = (case map_of example_texts s of
     Some v \<Rightarrow> Inr v
   | None \<Rightarrow> Inl ''Unexpected token in JSON'')"

definition example_stringify :: "json \<Rightarrow> string" where
  "example_stringify v = (case map_of (map (\<lambda>(s, v). (v, s)) example_texts) v of
     Some s \<Rightarrow> s
   | None \<Rightarrow> ''null'')"

definition example_rt :: runtime where
  "example_rt = \<lparr> process_env = Map.empty, JSON_stringify = example_stringify,
                   JSON_parse = example_parse \<rparr>"

definition example_db :: s3database where
  "example_db =
     \<lparr> s3Client = S3Client ''us-east-1'' ''http://127.0.0.1:9000''
                    (Some [(''accessKeyId'', JString ''AK0''),
                           (''secretAccessKey'', JString ''SK0'')]) True,
       bucket = ''media'', tables = {} \<rparr>"

text \<open>
  A store with two orders, one of them corrupt, and three pool records, one with an empty
  bucket name and one without a secret key; no failure anywhere.
\<close>

definition example_world :: world where
  \<open>example_world =
     \<lparr> objects = [((''media'', ''orders/1.json''), ''{"id":7}''),
                  ((''media'', ''orders/2.json''), ''{oops''),
                  ((''media'', ''pools/acme.json''),
                     ''{"bucketName":"acme-media","accessKey":"AK1","secretKey":"SK1"}''),
                  ((''media'', ''pools/blank.json''),
                     ''{"bucketName":"","accessKey":"AK1","secretKey":"SK1"}''),
                  ((''media'', ''pools/partial.json''),
                     ''{"bucketName":"acme-media","accessKey":"AK1"}'')],
       fault = (\<lambda>c. None),
       stream_fault = (\<lambda>k. None),
       requests = [],
       console = [],
       now = ''2025-06-30T12:00:00.000Z'' \<rparr>\<close>

text \<open>The same store behind a backend that refuses every command.\<close>

definition AccessDenied :: js_error where
  "AccessDenied = JsError ''AccessDenied'' ''Access Denied''"

definition denied_world :: world where
  "denied_world = example_world\<lparr>fault := (\<lambda>c. Some AccessDenied)\<rparr>"

text \<open>An instance constructed with a bucket and both keys.\<close>

definition keyed_db :: s3database where
  "keyed_db = constructor example_rt None (Some ''tenant-bucket'') None
                (Some (JString ''AK9'')) (Some (JString ''SK9''))"

text \<open>The example store with a body stream that breaks while it is read.\<close>

definition ConnectionReset :: js_error where
  "ConnectionReset = JsError ''ECONNRESET'' ''socket hang up''"

definition broken_stream_world :: world where
  "broken_stream_world = example_world\<lparr>stream_fault := (\<lambda>k. Some ConnectionReset)\<rparr>"

text \<open>
  A store that holds the sentinel of the table \<^verbatim>\<open>orders\<close>, behind a backend that refuses
  to serve this one object and accepts every write.
\<close>

definition flaky_world :: world where
  \<open>flaky_world =
     \<lparr> objects = [((''media'', ''orders/_metadata.json''),
                    ''{"tableName":"orders","created":"2024-01-01T00:00:00.000Z"}'')],
       fault = (\<lambda>c. if c = GetObjectCommand ''media'' ''orders/_metadata.json''
                     then Some AccessDenied else None),
       stream_fault = (\<lambda>k. None),
       requests = [],
       console = [],
       now = ''2025-06-30T12:00:00.000Z'' \<rparr>\<close>

text \<open>The example store behind a backend that refuses to serve the good order.\<close>

definition unreadable_world :: world where
  "unreadable_world = example_world\<lparr>fault :=
     (\<lambda>c. if c = GetObjectCommand ''media'' ''orders/1.json'' then Some AccessDenied else None)\<rparr>"

section \<open>Verification\<close>

lemmas io_defs = return_io_def throw_io_def await_then_def try_catch_def lift_io_def
  console_error_def console_log_def

subsection \<open>The two scans agree\<close>

lemma read_item_drop_keys:
  "read_item rt db k (map data rows) w = drop_keys (read_item_with_key rt db k rows w)"
  by (simp add: read_item_def read_item_with_key_def drop_keys_def io_defs
      split: prod.splits sum.splits)

lemma for_of_drop_keys:
  "for_of ks (read_item rt db) (map data rows) w
     = drop_keys (for_of ks (read_item_with_key rt db) rows w)"
proof (induction ks arbitrary: rows w)
  case Nil
  show ?case by (simp add: drop_keys_def return_io_def)
next
  case (Cons k ks)
  show ?case
  proof (cases "read_item_with_key rt db k rows w")
    case (Pair r w1)
    then have it: "read_item rt db k (map data rows) w = (map_sum id (map data) r, w1)"
      by (simp add: read_item_drop_keys drop_keys_def)
    show ?thesis
    proof (cases r)
      case (Inl e)
      with Pair it show ?thesis by (simp add: await_then_def drop_keys_def)
    next
      case (Inr rows1)
      with Pair it Cons.IH [of rows1 w1] show ?thesis by (simp add: await_then_def)
    qed
  qed
qed

lemma for_await_drop_keys:
  "for_await ps (\<lambda>page rows. case Contents page of None \<Rightarrow> return_io rows
                    | Some objs \<Rightarrow> for_of objs (read_item rt db) rows) (map data rows) w
   = drop_keys (for_await ps (\<lambda>page rows. case Contents page of None \<Rightarrow> return_io rows
                    | Some objs \<Rightarrow> for_of objs (read_item_with_key rt db) rows) rows w)"
proof (induction ps arbitrary: rows w)
  case Nil
  show ?case by (simp add: drop_keys_def return_io_def)
next
  case (Cons p ps)
  show ?case
  proof (cases "p w")
    case (Pair r w1)
    show ?thesis
    proof (cases r)
      case (Inl e)
      with Pair show ?thesis by (simp add: await_then_def drop_keys_def)
    next
      case (Inr page)
      show ?thesis
      proof (cases "Contents page")
        case None
        with Pair Inr Cons.IH [of rows w1] show ?thesis
          by (simp add: await_then_def return_io_def)
      next
        case (Some objs)
        obtain r2 w2 where b: "for_of objs (read_item_with_key rt db) rows w1 = (r2, w2)"
          by (cases "for_of objs (read_item_with_key rt db) rows w1")
        then have b': "for_of objs (read_item rt db) (map data rows) w1
                         = (map_sum id (map data) r2, w2)"
          by (simp add: for_of_drop_keys drop_keys_def)
        show ?thesis
        proof (cases r2)
          case (Inl e)
          with Pair Inr Some b b' show ?thesis by (simp add: await_then_def drop_keys_def)
        next
          case (Inr rows2)
          with Pair \<open>r = Inr page\<close> Some b b' Cons.IH [of rows2 w2] show ?thesis
            by (simp add: await_then_def)
        qed
      qed
    qed
  qed
qed

text \<open>
  C10. In every state of the backend and for every prefix, \<^verbatim>\<open>getS3Data\<close> returns the
  list of the \<^verbatim>\<open>data\<close> fields of the rows \<^verbatim>\<open>getS3DataWithKey\<close> returns, in the same
  order; it throws exactly when the other does, with the same error, and leaves the same
  requests and the same console lines behind.
\<close>

theorem getS3Data_is_getS3DataWithKey_without_keys:
  "getS3Data rt p db w = drop_keys (getS3DataWithKey rt p db w)"
  using for_await_drop_keys [of "paginateListObjectsV2 w (bucket db) p 1000" rt db "[]" w]
  by (simp add: getS3Data_def getS3DataWithKey_def)

subsection \<open>get\<close>

lemma try_catch_null_total:
  "\<not> isl (fst (try_catch m (\<lambda>err. await_then (console_error msg (args err)) (\<lambda>_. return_io x)) w))"
  by (simp add: io_defs split: prod.splits sum.splits)

lemma get_result:
  "fst (get rt k db w)
     = Inr (case fetch_parse rt w (bucket db) k of Inl e \<Rightarrow> None | Inr d \<Rightarrow> Some d)"
proof (cases "fault w (GetObjectCommand (bucket db) k)")
  case (Some e)
  then show ?thesis
    by (simp add: get_def fetch_parse_def send_GetObject_def io_defs)
next
  case no_fault: None
  show ?thesis
  proof (cases "map_of (objects w) (bucket db, k)")
    case None
    with no_fault show ?thesis
      by (simp add: get_def fetch_parse_def send_GetObject_def NoSuchKey_def io_defs)
  next
    case (Some stored)
    show ?thesis
    proof (cases "stream_fault w (bucket db, k)")
      case broken: (Some e)
      with no_fault Some show ?thesis
        by (simp add: get_def fetch_parse_def send_GetObject_def streamToString_def io_defs)
    next
      case None
      with no_fault Some show ?thesis
        by (cases "JSON_parse rt stored")
           (simp_all add: get_def fetch_parse_def send_GetObject_def streamToString_def
              JSON_parse_io_def io_defs)
    qed
  qed
qed

lemma fetch_parse_success:
  "fetch_parse rt w b k = Inr d \<Longrightarrow>
     fault w (GetObjectCommand b k) = None \<and> stream_fault w (b, k) = None
     \<and> (\<exists>stored. map_of (objects w) (b, k) = Some stored \<and> JSON_parse rt stored = Inr d)"
  by (auto simp add: fetch_parse_def split: option.splits sum.splits)

text \<open>
  C1, as the code has it. \<^verbatim>\<open>get(k)\<close> never throws. When the backend reports that the
  object does not exist, by the absence of the object or by any error named NoSuchKey,
  it logs the miss and returns \<^verbatim>\<open>null\<close>. When the fetched body fails JSON parsing, the
  SyntaxError is rethrown by the inner handler, caught by the outer one, logged, and
  \<^verbatim>\<open>null\<close> is returned. Any other error of the backend, and any error of the body stream
  while it is read, takes the same way: logged, \<^verbatim>\<open>null\<close> returned. When fetch, read and
  parse succeed, the parsed document is returned and nothing is logged; and only then is
  a document returned.
\<close>

theorem get_returns_null_on_every_failure:
  "(fault w (GetObjectCommand (bucket db) k) = None \<and> map_of (objects w) (bucket db, k) = None
      \<longrightarrow> fst (get rt k db w) = Inr None
          \<and> console (snd (get rt k db w)) = console w @
                [ConsoleError (''Error with key '' @ k @ '' not found with error:'')
                   [ArgStr ''NoSuchKey'', ArgStr (err_message NoSuchKey)]])
   \<and> (fault w (GetObjectCommand (bucket db) k) = None \<and> stream_fault w (bucket db, k) = None
        \<and> map_of (objects w) (bucket db, k) = Some body \<and> JSON_parse rt body = Inl msg
      \<longrightarrow> fst (get rt k db w) = Inr None
          \<and> console (snd (get rt k db w)) = console w @
                [ConsoleError (''Error getting key  '' @ k @ '':'')
                   [ArgErr (JsError ''SyntaxError'' msg)]])
   \<and> (fault w (GetObjectCommand (bucket db) k) = Some e \<and> err_name e \<noteq> ''NoSuchKey''
      \<longrightarrow> fst (get rt k db w) = Inr None
          \<and> console (snd (get rt k db w)) = console w @
                [ConsoleError (''Error getting key  '' @ k @ '':'') [ArgErr e]])
   \<and> (fault w (GetObjectCommand (bucket db) k) = Some e \<and> err_name e = ''NoSuchKey''
      \<longrightarrow> fst (get rt k db w) = Inr None
          \<and> console (snd (get rt k db w)) = console w @
                [ConsoleError (''Error with key '' @ k @ '' not found with error:'')
                   [ArgStr (err_name e), ArgStr (err_message e)]])
   \<and> (fault w (GetObjectCommand (bucket db) k) = None
        \<and> map_of (objects w) (bucket db, k) = Some body
        \<and> stream_fault w (bucket db, k) = Some e \<and> err_name e \<noteq> ''NoSuchKey''
      \<longrightarrow> fst (get rt k db w) = Inr None
          \<and> console (snd (get rt k db w)) = console w @
                [ConsoleError (''Error getting key  '' @ k @ '':'') [ArgErr e]])
   \<and> (fault w (GetObjectCommand (bucket db) k) = None
        \<and> map_of (objects w) (bucket db, k) = Some body
        \<and> stream_fault w (bucket db, k) = Some e \<and> err_name e = ''NoSuchKey''
      \<longrightarrow> fst (get rt k db w) = Inr None
          \<and> console (snd (get rt k db w)) = console w @
                [ConsoleError (''Error with key '' @ k @ '' not found with error:'')
                   [ArgStr (err_name e), ArgStr (err_message e)]])
   \<and> (fault w (GetObjectCommand (bucket db) k) = None \<and> stream_fault w (bucket db, k) = None
        \<and> map_of (objects w) (bucket db, k) = Some body \<and> JSON_parse rt body = Inr d
      \<longrightarrow> fst (get rt k db w) = Inr (Some d) \<and> console (snd (get rt k db w)) = console w)
   \<and> (fst (get rt k db w) = Inr (Some d)
      \<longrightarrow> fault w (GetObjectCommand (bucket db) k) = None
          \<and> stream_fault w (bucket db, k) = None
          \<and> (\<exists>stored. map_of (objects w) (bucket db, k) = Some stored
                        \<and> JSON_parse rt stored = Inr d))
   \<and> \<not> isl (fst (get rt k db w))"
proof (intro conjI impI)
  show "\<not> isl (fst (get rt k db w))"
    unfolding get_def by (rule try_catch_null_total)
next
  assume "fst (get rt k db w) = Inr (Some d)"
  then have "fetch_parse rt w (bucket db) k = Inr d"
    by (simp add: get_result split: sum.splits)
  then have succ: "fault w (GetObjectCommand (bucket db) k) = None
     \<and> stream_fault w (bucket db, k) = None
     \<and> (\<exists>stored. map_of (objects w) (bucket db, k) = Some stored
                   \<and> JSON_parse rt stored = Inr d)"
    by (rule fetch_parse_success)
  from succ show "fault w (GetObjectCommand (bucket db) k) = None" by simp
  from succ show "stream_fault w (bucket db, k) = None" by simp
  from succ show "\<exists>stored. map_of (objects w) (bucket db, k) = Some stored
                    \<and> JSON_parse rt stored = Inr d" by simp
qed (simp_all add: get_def send_GetObject_def streamToString_def JSON_parse_io_def
       NoSuchKey_def io_defs)

text \<open>
  The cases in the example store: a key that does not exist, the corrupt order, a
  backend that answers AccessDenied, a body stream that breaks, and the good order, of
  which the returned document tells that fetch, read and parse succeeded.
\<close>

theorem get_returns_null_on_every_failure_witness:
  \<open>fst (get example_rt ''orders/404.json'' example_db example_world) = Inr None
   \<and> fst (get example_rt ''orders/2.json'' example_db example_world) = Inr None
   \<and> console (snd (get example_rt ''orders/2.json'' example_db example_world)) =
        [ConsoleError ''Error getting key  orders/2.json:''
           [ArgErr (JsError ''SyntaxError'' ''Unexpected token in JSON'')]]
   \<and> fst (get example_rt ''orders/1.json'' example_db denied_world) = Inr None
   \<and> console (snd (get example_rt ''orders/1.json'' example_db denied_world)) =
        [ConsoleError ''Error getting key  orders/1.json:'' [ArgErr AccessDenied]]
   \<and> fst (get example_rt ''orders/1.json'' example_db broken_stream_world) = Inr None
   \<and> console (snd (get example_rt ''orders/1.json'' example_db broken_stream_world)) =
        [ConsoleError ''Error getting key  orders/1.json:'' [ArgErr ConnectionReset]]
   \<and> fst (get example_rt ''orders/1.json'' example_db example_world)
        = Inr (Some (JObject [(''id'', JNumber 7)]))
   \<and> (\<exists>stored. map_of (objects example_world) (''media'', ''orders/1.json'') = Some stored
                  \<and> JSON_parse example_rt stored = Inr (JObject [(''id'', JNumber 7)]))\<close>
proof -
  have run: "fst (get example_rt ''orders/1.json'' example_db example_world)
               = Inr (Some (JObject [(''id'', JNumber 7)]))"
    using get_returns_null_on_every_failure [where w = example_world and db = example_db
       and rt = example_rt and k = "''orders/1.json''" and body = \<open>''{"id":7}''\<close>
       and d = "JObject [(''id'', JNumber 7)]"]
    by (simp add: example_rt_def example_parse_def example_texts_def example_world_def
        example_db_def)
  have found: "\<exists>stored. map_of (objects example_world) (''media'', ''orders/1.json'') = Some stored
                  \<and> JSON_parse example_rt stored = Inr (JObject [(''id'', JNumber 7)])"
    using run get_returns_null_on_every_failure [where w = example_world and db = example_db
       and rt = example_rt and k = "''orders/1.json''" and d = "JObject [(''id'', JNumber 7)]"]
    by (simp add: example_db_def)
  show ?thesis
    using run found
      get_returns_null_on_every_failure [where w = example_world and db = example_db
         and rt = example_rt and k = "''orders/404.json''"]
      get_returns_null_on_every_failure [where w = example_world and db = example_db
         and rt = example_rt and k = "''orders/2.json''" and body = "''{oops''"
         and msg = "''Unexpected token in JSON''"]
      get_returns_null_on_every_failure [where w = denied_world and db = example_db
         and rt = example_rt and k = "''orders/1.json''" and e = AccessDenied]
      get_returns_null_on_every_failure [where w = broken_stream_world and db = example_db
         and rt = example_rt and k = "''orders/1.json''" and e = ConnectionReset
         and body = \<open>''{"id":7}''\<close>]
    by (simp add: example_rt_def example_parse_def example_texts_def example_world_def
        example_db_def denied_world_def AccessDenied_def broken_stream_world_def
        ConnectionReset_def)
qed

text \<open>
  C1 as stated fails: the body of \<^verbatim>\<open>orders/2.json\<close> does not parse, and the call returns
  \<^verbatim>\<open>null\<close> instead of throwing; the backend answers AccessDenied, and the call returns
  \<^verbatim>\<open>null\<close> instead of throwing.
\<close>

theorem get_propagates_counterexample:
  "JSON_parse example_rt ''{oops'' = Inl ''Unexpected token in JSON''
   \<and> map_of (objects example_world) (bucket example_db, ''orders/2.json'') = Some ''{oops''
   \<and> fst (get example_rt ''orders/2.json'' example_db example_world) = Inr None
   \<and> fault denied_world (GetObjectCommand (bucket example_db) ''orders/1.json'') = Some AccessDenied
   \<and> fst (get example_rt ''orders/1.json'' example_db denied_world) = Inr None"
  by (simp add: get_def send_GetObject_def streamToString_def JSON_parse_io_def io_defs
      example_rt_def example_parse_def example_texts_def example_world_def example_db_def
      denied_world_def AccessDenied_def)

subsection \<open>put, then get\<close>

text \<open>
  C4. Let the backend answer the two commands. Then \<^verbatim>\<open>put(k, d)\<close> returns normally and
  leaves the text \<^verbatim>\<open>JSON.stringify\<close> writes for \<open>d\<close> at \<open>k\<close>, whatever the store held
  there before; and \<^verbatim>\<open>get(k)\<close> right after it returns what \<^verbatim>\<open>JSON.parse\<close> reads from
  that text. So for a JSON-serializable document \<open>d\<close>, one that \<^verbatim>\<open>JSON.parse\<close> gives back
  from the text \<^verbatim>\<open>JSON.stringify\<close> writes for it, \<^verbatim>\<open>get(k)\<close> returns \<open>d\<close>.
\<close>

theorem put_then_get_round_trip:
  assumes "fault w (PutObjectCommand (bucket db) k (JSON_stringify rt d)) = None"
    and "fault w (GetObjectCommand (bucket db) k) = None"
    and "stream_fault w (bucket db, k) = None"
  shows "fst (put rt k d db w) = Inr ()
     \<and> map_of (objects (snd (put rt k d db w))) (bucket db, k) = Some (JSON_stringify rt d)
     \<and> fst (get rt k db (snd (put rt k d db w)))
         = Inr (case JSON_parse rt (JSON_stringify rt d) of Inl msg \<Rightarrow> None | Inr d' \<Rightarrow> Some d')
     \<and> (JSON_parse rt (JSON_stringify rt d) = Inr d
          \<longrightarrow> fst (get rt k db (snd (put rt k d db w))) = Inr (Some d))"
  using assms
  by (simp add: put_def get_def send_PutObject_def send_GetObject_def streamToString_def
      JSON_parse_io_def io_defs update_conv' split: sum.splits)

text \<open>A new key, and a key that held another document.\<close>

theorem put_then_get_round_trip_witness:
  "fst (put example_rt ''orders/3.json'' (JObject [(''id'', JNumber 8)]) example_db example_world)
     = Inr ()
   \<and> fst (get example_rt ''orders/3.json'' example_db
        (snd (put example_rt ''orders/3.json'' (JObject [(''id'', JNumber 8)]) example_db
                example_world)))
       = Inr (Some (JObject [(''id'', JNumber 8)]))
   \<and> fst (get example_rt ''orders/1.json'' example_db
        (snd (put example_rt ''orders/1.json'' (JObject [(''id'', JNumber 8)]) example_db
                example_world)))
       = Inr (Some (JObject [(''id'', JNumber 8)]))"
  using
    put_then_get_round_trip [where w = example_world and db = example_db and rt = example_rt
      and k = "''orders/3.json''" and d = "JObject [(''id'', JNumber 8)]"]
    put_then_get_round_trip [where w = example_world and db = example_db and rt = example_rt
      and k = "''orders/1.json''" and d = "JObject [(''id'', JNumber 8)]"]
  by (simp add: example_rt_def example_parse_def example_stringify_def example_texts_def
      example_world_def example_db_def)

subsection \<open>getPoolCredentials: the lookup of a pool\<close>





subsection \<open>getPoolCredentials: the default branch\<close>

text \<open>
  What the default branch does on every instance: it returns the instance's bucket and
  the two process-default constants, whatever keys the instance was constructed with;
  it sends no command and logs nothing (the world is returned as it was).
\<close>

lemma getPoolCredentials_default:
  assumes "profileId = None \<or> profileId = Some [] \<or> profileId = Some ''default''"
  shows "getPoolCredentials rt profileId db w =
           (Inr (Some \<lparr> bucketName = JString (bucket db),
                         accessKey = JString (s3AccessKeyDB rt),
                         secretKey = JString (s3SecretKeyDB rt) \<rparr>), w)"
  using assms
  by (auto simp add: getPoolCredentials_def credentials_property_def js_or_def io_defs
      split: credentials_provider.splits)

text \<open>
  C7 at a failing input. The instance is constructed with the bucket \<^verbatim>\<open>tenant-bucket\<close>
  and the keys \<^verbatim>\<open>AK9\<close> and \<^verbatim>\<open>SK9\<close>, and its client holds them. For an absent and for
  the \<^verbatim>\<open>default\<close> profile the call sends no command and returns the instance's bucket,
  but not its keys: the reads of \<^verbatim>\<open>accessKeyId\<close> and \<^verbatim>\<open>secretAccessKey\<close> on the provider
  function give \<^verbatim>\<open>undefined\<close>, and the process-default constants are returned in their
  place.
\<close>

theorem getPoolCredentials_ignores_configured_keys:
  "credentials (s3Client keyed_db)
     = Provider (Some [(''accessKeyId'', JString ''AK9''), (''secretAccessKey'', JString ''SK9'')])
   \<and> getPoolCredentials example_rt None keyed_db example_world =
     (Inr (Some \<lparr> bucketName = JString ''tenant-bucket'', accessKey = JString ''minioadmin'',
                   secretKey = JString ''minioadmin'' \<rparr>), example_world)
   \<and> getPoolCredentials example_rt (Some ''default'') keyed_db example_world =
     (Inr (Some \<lparr> bucketName = JString ''tenant-bucket'', accessKey = JString ''minioadmin'',
                   secretKey = JString ''minioadmin'' \<rparr>), example_world)"
  by (simp add: getPoolCredentials_def credentials_property_def js_or_def io_defs
      keyed_db_def constructor_def S3Client_def example_rt_def
      s3AccessKeyDB_def s3SecretKeyDB_def env_or_def)

subsection \<open>getPoolCredentials: a fetched pool record\<close>

text \<open>
  C8, as the code has it. Let the pool record of a profile be fetched and parsed. When
  its three fields are all truthy, the call returns exactly these three values: no
  constant is ever substituted. When one of the three is absent or falsy (an empty
  string, for one), the record is rejected and the call returns \<^verbatim>\<open>null\<close>.
\<close>

theorem getPoolCredentials_record:
  assumes "p \<noteq> []" and "p \<noteq> ''default''"
    and "fault w (GetObjectCommand (bucket db) (''pools/'' @ p @ ''.json'')) = None"
    and "stream_fault w (bucket db, ''pools/'' @ p @ ''.json'') = None"
    and "map_of (objects w) (bucket db, ''pools/'' @ p @ ''.json'') = Some body"
    and "JSON_parse rt body = Inr poolData"
  shows
    "(own_property poolData ''bucketName'' = Some b \<and> truthy (Some b)
        \<and> own_property poolData ''accessKey'' = Some a \<and> truthy (Some a)
        \<and> own_property poolData ''secretKey'' = Some s \<and> truthy (Some s)
      \<longrightarrow> fst (getPoolCredentials rt (Some p) db w)
            = Inr (Some \<lparr> bucketName = b, accessKey = a, secretKey = s \<rparr>))
     \<and> (\<not> truthy (own_property poolData ''bucketName'')
          \<or> \<not> truthy (own_property poolData ''accessKey'')
          \<or> \<not> truthy (own_property poolData ''secretKey'')
      \<longrightarrow> fst (getPoolCredentials rt (Some p) db w) = Inr None)"
proof (intro conjI impI)
  assume ok: "own_property poolData ''bucketName'' = Some b \<and> truthy (Some b)
        \<and> own_property poolData ''accessKey'' = Some a \<and> truthy (Some a)
        \<and> own_property poolData ''secretKey'' = Some s \<and> truthy (Some s)"
  then obtain kvs where "poolData = JObject kvs"
    by (cases poolData) simp_all
  with ok assms show "fst (getPoolCredentials rt (Some p) db w)
            = Inr (Some \<lparr> bucketName = b, accessKey = a, secretKey = s \<rparr>)"
    by (simp add: getPoolCredentials_def send_GetObject_def streamToString_def JSON_parse_io_def
        pool_invalid_def js_or_def io_defs)
next
  assume bad: "\<not> truthy (own_property poolData ''bucketName'')
          \<or> \<not> truthy (own_property poolData ''accessKey'')
          \<or> \<not> truthy (own_property poolData ''secretKey'')"
  then have inv: "pool_invalid poolData"
    by (auto simp add: pool_invalid_def)
  have "fst (getPoolCredentials rt (Some p) db w) = Inr None"
  proof (cases "truthy (Some poolData)")
    case True
    with inv assms show ?thesis
      by (simp add: getPoolCredentials_def send_GetObject_def streamToString_def
          JSON_parse_io_def log_missing_def io_defs)
  next
    case False
    show ?thesis
    proof (cases "poolData = JNull")
      case True
      with inv assms show ?thesis
        by (simp add: getPoolCredentials_def send_GetObject_def streamToString_def
            JSON_parse_io_def log_missing_def property_def TypeError_def io_defs)
    next
      case nonnull: False
      with False inv assms show ?thesis
        by (simp add: getPoolCredentials_def send_GetObject_def streamToString_def
            JSON_parse_io_def log_missing_def property_def io_defs)
    qed
  qed
  then show "fst (getPoolCredentials rt (Some p) db w) = Inr None" .
qed

text \<open>The complete record, the record with an empty bucket name, the record with no
  secret key.\<close>

theorem getPoolCredentials_record_witness:
  \<open>fst (getPoolCredentials example_rt (Some ''acme'') example_db example_world)
     = Inr (Some \<lparr> bucketName = JString ''acme-media'', accessKey = JString ''AK1'',
                   secretKey = JString ''SK1'' \<rparr>)
   \<and> fst (getPoolCredentials example_rt (Some ''blank'') example_db example_world) = Inr None
   \<and> fst (getPoolCredentials example_rt (Some ''partial'') example_db example_world) = Inr None\<close>
  using
    getPoolCredentials_record [where p = "''acme''" and w = example_world and db = example_db
      and rt = example_rt
      and body = \<open>''{"bucketName":"acme-media","accessKey":"AK1","secretKey":"SK1"}''\<close>
      and poolData = "JObject [(''bucketName'', JString ''acme-media''),
                               (''accessKey'', JString ''AK1''), (''secretKey'', JString ''SK1'')]"
      and b = "JString ''acme-media''" and a = "JString ''AK1''" and s = "JString ''SK1''"]
    getPoolCredentials_record [where p = "''blank''" and w = example_world and db = example_db
      and rt = example_rt
      and body = \<open>''{"bucketName":"","accessKey":"AK1","secretKey":"SK1"}''\<close>
      and poolData = "JObject [(''bucketName'', JString []),
                               (''accessKey'', JString ''AK1''), (''secretKey'', JString ''SK1'')]"]
    getPoolCredentials_record [where p = "''partial''" and w = example_world and db = example_db
      and rt = example_rt
      and body = \<open>''{"bucketName":"acme-media","accessKey":"AK1"}''\<close>
      and poolData = "JObject [(''bucketName'', JString ''acme-media''),
                               (''accessKey'', JString ''AK1'')]"]
  by (simp add: example_rt_def example_parse_def example_texts_def example_world_def
      example_db_def)

text \<open>
  C8 as stated fails: the record \<^verbatim>\<open>pools/blank.json\<close> has all three fields, its bucket
  name is the empty string, and the call returns \<^verbatim>\<open>null\<close>, not a record with the default
  bucket in its place.
\<close>

theorem getPoolCredentials_substitutes_counterexample:
  \<open>map_of (objects example_world) (bucket example_db, ''pools/blank.json'')
      = Some ''{"bucketName":"","accessKey":"AK1","secretKey":"SK1"}''
   \<and> JSON_parse example_rt ''{"bucketName":"","accessKey":"AK1","secretKey":"SK1"}''
      = Inr (JObject [(''bucketName'', JString []), (''accessKey'', JString ''AK1''),
                      (''secretKey'', JString ''SK1'')])
   \<and> fst (getPoolCredentials example_rt (Some ''blank'') example_db example_world) = Inr None
   \<and> fst (getPoolCredentials example_rt (Some ''blank'') example_db example_world)
      \<noteq> Inr (Some \<lparr> bucketName = JString (s3BucketDB example_rt), accessKey = JString ''AK1'',
                     secretKey = JString ''SK1'' \<rparr>)\<close>
  by (simp add: getPoolCredentials_def send_GetObject_def streamToString_def JSON_parse_io_def
      pool_invalid_def log_missing_def io_defs
      example_rt_def example_parse_def example_texts_def example_world_def example_db_def)

subsection \<open>ensureTable\<close>

lemma count_key_distinct:
  "distinct (map fst xs) \<Longrightarrow>
     length (filter (\<lambda>(k', v). k' = k) xs) = (if k \<in> fst ` set xs then 1 else 0)"
  by (induction xs) (auto simp add: image_iff)

lemma count_key_update_new:
  "k \<notin> fst ` set xs \<Longrightarrow> length (filter (\<lambda>(k', v). k' = k) (AList.update k v xs)) = 1"
  by (induction xs) auto

lemma ensureTable_cached:
  "t \<in> tables db \<Longrightarrow> ensureTable rt t db w = (Inr db, w)"
  by (simp add: ensureTable_def return_io_def)

text \<open>
  What the handler of line 59 does: whatever error the fetch of the sentinel ends in, the
  sentinel is written with the current timestamp, and when the write succeeds the table
  is added to the cache and nothing is logged.
\<close>

lemma ensureTable_fetch_error:
  assumes "t \<notin> tables db"
    and "fst (send_GetObject (bucket db) (metadata_key t) w) = Inl e"
    and "fault w (PutObjectCommand (bucket db) (metadata_key t)
                    (JSON_stringify rt (metadata_doc t (now w)))) = None"
  shows "fst (ensureTable rt t db w) = Inr (db\<lparr>tables := insert t (tables db)\<rparr>)
         \<and> objects (snd (ensureTable rt t db w))
             = AList.update (bucket db, metadata_key t)
                 (JSON_stringify rt (metadata_doc t (now w))) (objects w)
         \<and> console (snd (ensureTable rt t db w)) = console w"
  using assms
  by (auto simp add: ensureTable_def send_GetObject_def send_PutObject_def io_defs Let_def
      split: option.splits)

text \<open>
  C3 at a failing input. The sentinel of \<^verbatim>\<open>orders\<close> exists and its fetch fails with
  AccessDenied, not with NoSuchKey. The call does not rethrow: it overwrites the sentinel
  with a new creation time, adds the table to the cache and logs nothing.
\<close>

theorem ensureTable_creates_on_any_fetch_error:
  \<open>map_of (objects flaky_world) (''media'', ''orders/_metadata.json'')
      = Some ''{"tableName":"orders","created":"2024-01-01T00:00:00.000Z"}''
   \<and> fst (send_GetObject ''media'' ''orders/_metadata.json'' flaky_world) = Inl AccessDenied
   \<and> fst (ensureTable example_rt ''orders'' example_db flaky_world)
       = Inr (example_db\<lparr>tables := {''orders''}\<rparr>)
   \<and> objects (snd (ensureTable example_rt ''orders'' example_db flaky_world))
       = [((''media'', ''orders/_metadata.json''),
           ''{"tableName":"orders","created":"2025-06-30T12:00:00.000Z"}'')]
   \<and> console (snd (ensureTable example_rt ''orders'' example_db flaky_world)) = []\<close>
  by (simp add: ensureTable_def send_GetObject_def send_PutObject_def io_defs
      metadata_key_def metadata_doc_def flaky_world_def example_db_def example_rt_def
      example_stringify_def example_texts_def AccessDenied_def)

text \<open>
  C6. Let the backend answer the fetch and the write of the sentinel, hold at most one
  object per key, and hold the sentinel of the table if the table is cached. Then the first call of
  \<^verbatim>\<open>ensureTable\<close> returns normally with the table cached; the second call returns
  normally, changes neither the cache nor the world (no command sent, nothing logged);
  and the store holds exactly one sentinel object of the table afterwards. Whenever the
  table is already cached, a call returns at once, with the world as it was.
\<close>

theorem ensureTable_twice:
  assumes "fault w (GetObjectCommand (bucket db) (metadata_key t)) = None"
    and "fault w (PutObjectCommand (bucket db) (metadata_key t)
                    (JSON_stringify rt (metadata_doc t (now w)))) = None"
    and "distinct (map fst (objects w))"
    and "t \<in> tables db \<longrightarrow> (bucket db, metadata_key t) \<in> fst ` set (objects w)"
  shows "fst (ensureTable rt t db w) = Inr (db\<lparr>tables := insert t (tables db)\<rparr>)
         \<and> ensureTable rt t (db\<lparr>tables := insert t (tables db)\<rparr>) (snd (ensureTable rt t db w))
             = (Inr (db\<lparr>tables := insert t (tables db)\<rparr>), snd (ensureTable rt t db w))
         \<and> sentinel_count (snd (ensureTable rt t db w)) (bucket db) t = 1
         \<and> (t \<in> tables db \<longrightarrow> ensureTable rt t db w = (Inr db, w))"
proof -
  let ?db1 = "db\<lparr>tables := insert t (tables db)\<rparr>"
  have second: "ensureTable rt t ?db1 w' = (Inr ?db1, w')" for w'
    by (rule ensureTable_cached) simp
  have cached: "t \<in> tables db \<longrightarrow> ensureTable rt t db w = (Inr db, w)"
    by (simp add: ensureTable_cached)
  have first: "fst (ensureTable rt t db w) = Inr ?db1
               \<and> sentinel_count (snd (ensureTable rt t db w)) (bucket db) t = 1"
  proof (cases "t \<in> tables db")
    case True
    then have "?db1 = db" by (simp add: insert_absorb)
    with True assms(3,4) show ?thesis
      by (simp add: ensureTable_cached sentinel_count_def count_key_distinct)
  next
    case False
    show ?thesis
    proof (cases "map_of (objects w) (bucket db, metadata_key t)")
      case None
      then have "(bucket db, metadata_key t) \<notin> fst ` set (objects w)"
        by (simp add: map_of_eq_None_iff)
      with None False assms(1,2) show ?thesis
        by (simp add: ensureTable_def send_GetObject_def send_PutObject_def io_defs
            NoSuchKey_def sentinel_count_def count_key_update_new)
    next
      case (Some body)
      then have "(bucket db, metadata_key t) \<in> fst ` set (objects w)"
        by (metis map_of_eq_None_iff option.distinct(1))
      with Some False assms(1,3) show ?thesis
        by (simp add: ensureTable_def send_GetObject_def io_defs
            sentinel_count_def count_key_distinct)
    qed
  qed
  from first second cached show ?thesis by simp
qed

text \<open>The table \<^verbatim>\<open>orders\<close> in the example store, which has no sentinel yet.\<close>

theorem ensureTable_twice_witness:
  "fst (ensureTable example_rt ''orders'' example_db example_world)
     = Inr (example_db\<lparr>tables := {''orders''}\<rparr>)
   \<and> ensureTable example_rt ''orders'' (example_db\<lparr>tables := {''orders''}\<rparr>)
        (snd (ensureTable example_rt ''orders'' example_db example_world))
     = (Inr (example_db\<lparr>tables := {''orders''}\<rparr>),
        snd (ensureTable example_rt ''orders'' example_db example_world))
   \<and> sentinel_count (snd (ensureTable example_rt ''orders'' example_db example_world))
        ''media'' ''orders'' = 1"
  using ensureTable_twice [where rt = example_rt and t = "''orders''" and db = example_db
      and w = example_world]
  by (simp add: example_world_def example_db_def)

subsection \<open>The scans\<close>

lemma fetch_parse_frame [simp]:
  "fetch_parse rt (w\<lparr>requests := r\<rparr>) b k = fetch_parse rt w b k"
  "fetch_parse rt (w\<lparr>console := c\<rparr>) b k = fetch_parse rt w b k"
  by (simp_all add: fetch_parse_def split: option.splits)

lemma rows_of_frame [simp]:
  "rows_of rt (w\<lparr>requests := r\<rparr>) b ks = rows_of rt w b ks"
  "rows_of rt (w\<lparr>console := c\<rparr>) b ks = rows_of rt w b ks"
  by (simp_all add: rows_of_def)

lemma logs_of_frame [simp]:
  "logs_of rt (w\<lparr>requests := r\<rparr>) b ks = logs_of rt w b ks"
  "logs_of rt (w\<lparr>console := c\<rparr>) b ks = logs_of rt w b ks"
  by (simp_all add: logs_of_def)

lemma read_item_with_key_eq:
  "read_item_with_key rt db k rows w =
     (Inr (rows @ rows_of rt w (bucket db) [k]),
      w\<lparr>requests := requests w @ [GetObjectCommand (bucket db) k],
        console := console w @ logs_of rt w (bucket db) [k]\<rparr>)"
  by (simp add: read_item_with_key_def rows_of_def logs_of_def fetch_parse_def
      send_GetObject_def streamToString_def JSON_parse_io_def io_defs
      split: option.splits sum.splits)

lemma rows_of_Cons: "rows_of rt w b (k # ks) = rows_of rt w b [k] @ rows_of rt w b ks"
  by (simp add: rows_of_def)

lemma logs_of_Cons: "logs_of rt w b (k # ks) = logs_of rt w b [k] @ logs_of rt w b ks"
  by (simp add: logs_of_def)

lemma rows_of_append: "rows_of rt w b (ks @ ks') = rows_of rt w b ks @ rows_of rt w b ks'"
  by (simp add: rows_of_def)

lemma logs_of_append: "logs_of rt w b (ks @ ks') = logs_of rt w b ks @ logs_of rt w b ks'"
  by (simp add: logs_of_def)

lemma for_of_read_item_with_key:
  "for_of ks (read_item_with_key rt db) rows w =
     (Inr (rows @ rows_of rt w (bucket db) ks),
      w\<lparr>requests := requests w @ map (GetObjectCommand (bucket db)) ks,
        console := console w @ logs_of rt w (bucket db) ks\<rparr>)"
proof (induction ks arbitrary: rows w)
  case Nil
  show ?case by (simp add: return_io_def rows_of_def logs_of_def)
next
  case (Cons k ks)
  let ?rows1 = "rows @ rows_of rt w (bucket db) [k]"
  let ?w1 = "w\<lparr>requests := requests w @ [GetObjectCommand (bucket db) k],
                console := console w @ logs_of rt w (bucket db) [k]\<rparr>"
  have step: "read_item_with_key rt db k rows w = (Inr ?rows1, ?w1)"
    by (rule read_item_with_key_eq)
  have "for_of (k # ks) (read_item_with_key rt db) rows w
          = for_of ks (read_item_with_key rt db) ?rows1 ?w1"
    using step by (simp add: await_then_def)
  also have "\<dots> = (Inr (?rows1 @ rows_of rt ?w1 (bucket db) ks),
      ?w1\<lparr>requests := requests ?w1 @ map (GetObjectCommand (bucket db)) ks,
        console := console ?w1 @ logs_of rt ?w1 (bucket db) ks\<rparr>)"
    by (rule Cons.IH)
  also have "\<dots> = (Inr (rows @ rows_of rt w (bucket db) (k # ks)),
      w\<lparr>requests := requests w @ map (GetObjectCommand (bucket db)) (k # ks),
        console := console w @ logs_of rt w (bucket db) (k # ks)\<rparr>)"
    by (simp add: rows_of_Cons [of rt w _ k ks] logs_of_Cons [of rt w _ k ks])
  finally show ?case .
qed


lemma concat_chunks: "0 < n \<Longrightarrow> concat (chunks n xs) = xs"
proof (induction n xs rule: chunks.induct)
  case (1 n xs)
  show ?case
  proof (cases "xs = []")
    case True
    then show ?thesis by (simp add: chunks.simps)
  next
    case False
    with 1 have "concat (chunks n (drop n xs)) = drop n xs" by simp
    with False 1(2) show ?thesis
      by (subst chunks.simps) simp
  qed
qed

lemma page_keys_list_pages:
  "0 < n \<Longrightarrow> concat (map page_keys (list_pages w b p n)) = list_keys w b p"
proof -
  assume n: "0 < n"
  have "concat (map page_keys (map (\<lambda>c. ListObjectsV2Output (Some c)) cs)) = concat cs" for cs
    by (induction cs) (simp_all add: page_keys_def)
  with n show ?thesis
    by (simp add: list_pages_def Let_def page_keys_def concat_chunks)
qed

lemma scan_page_with_key:
  "(case Contents page of None \<Rightarrow> return_io rows
    | Some objs \<Rightarrow> for_of objs (read_item_with_key rt db) rows) w =
     (Inr (rows @ rows_of rt w (bucket db) (page_keys page)),
      w\<lparr>requests := requests w @ map (GetObjectCommand (bucket db)) (page_keys page),
        console := console w @ logs_of rt w (bucket db) (page_keys page)\<rparr>)"
  by (cases "Contents page")
     (simp_all add: page_keys_def for_of_read_item_with_key return_io_def rows_of_def logs_of_def)

lemma for_await_with_key:
  assumes "\<forall>i. fault w (ListObjectsV2Command (bucket db) p n i) = None"
  shows "for_await (map (\<lambda>(i, page). send_ListObjectsV2 (bucket db) p n i page) (enumerate j pages))
           (\<lambda>page rows. case Contents page of None \<Rightarrow> return_io rows
               | Some objs \<Rightarrow> for_of objs (read_item_with_key rt db) rows) rows w =
         (Inr (rows @ rows_of rt w (bucket db) (concat (map page_keys pages))),
          w\<lparr>requests := requests w @ scan_requests (bucket db) p n j pages,
            console := console w @ logs_of rt w (bucket db) (concat (map page_keys pages))\<rparr>)"
  using assms
proof (induction pages arbitrary: j rows w)
  case Nil
  show ?case by (simp add: return_io_def rows_of_def logs_of_def scan_requests_def)
next
  case (Cons page pages)
  let ?b = "bucket db"
  let ?body = "\<lambda>page rows. case Contents page of None \<Rightarrow> return_io rows
               | Some objs \<Rightarrow> for_of objs (read_item_with_key rt db) rows"
  let ?w0 = "w\<lparr>requests := requests w @ [ListObjectsV2Command ?b p n j]\<rparr>"
  let ?rows1 = "rows @ rows_of rt w ?b (page_keys page)"
  let ?w1 = "w\<lparr>requests := requests w @ ListObjectsV2Command ?b p n j
                               # map (GetObjectCommand ?b) (page_keys page),
                console := console w @ logs_of rt w ?b (page_keys page)\<rparr>"
  have list: "send_ListObjectsV2 ?b p n j page w = (Inr page, ?w0)"
    using Cons.prems by (simp add: send_ListObjectsV2_def)
  have page: "?body page rows ?w0 = (Inr ?rows1, ?w1)"
    by (simp add: scan_page_with_key)
  have faults: "\<forall>i. fault ?w1 (ListObjectsV2Command ?b p n i) = None"
    using Cons.prems by simp
  have "for_await (map (\<lambda>(i, page). send_ListObjectsV2 ?b p n i page) (enumerate j (page # pages)))
          ?body rows w
        = for_await (map (\<lambda>(i, page). send_ListObjectsV2 ?b p n i page) (enumerate (Suc j) pages))
          ?body ?rows1 ?w1"
    using list page by (simp add: await_then_def)
  also have "\<dots> = (Inr (?rows1 @ rows_of rt ?w1 ?b (concat (map page_keys pages))),
          ?w1\<lparr>requests := requests ?w1 @ scan_requests ?b p n (Suc j) pages,
            console := console ?w1 @ logs_of rt ?w1 ?b (concat (map page_keys pages))\<rparr>)"
    using faults by (rule Cons.IH)
  also have "\<dots> = (Inr (rows @ rows_of rt w ?b (concat (map page_keys (page # pages)))),
          w\<lparr>requests := requests w @ scan_requests ?b p n j (page # pages),
            console := console w @ logs_of rt w ?b (concat (map page_keys (page # pages)))\<rparr>)"
    by (simp add: rows_of_append logs_of_append scan_requests_def)
  finally show ?case .
qed


lemma for_await_with_key_result:
  "case fst (for_await (map (\<lambda>(i, page). send_ListObjectsV2 (bucket db) p n i page) (enumerate j pages))
           (\<lambda>page rows. case Contents page of None \<Rightarrow> return_io rows
               | Some objs \<Rightarrow> for_of objs (read_item_with_key rt db) rows) rows w) of
     Inl e \<Rightarrow> True
   | Inr rows' \<Rightarrow> rows' = rows @ rows_of rt w (bucket db) (concat (map page_keys pages))"
proof (induction pages arbitrary: j rows w)
  case Nil
  show ?case by (simp add: return_io_def rows_of_def)
next
  case (Cons page pages)
  let ?b = "bucket db"
  let ?body = "\<lambda>page rows. case Contents page of None \<Rightarrow> return_io rows
               | Some objs \<Rightarrow> for_of objs (read_item_with_key rt db) rows"
  let ?w0 = "w\<lparr>requests := requests w @ [ListObjectsV2Command ?b p n j]\<rparr>"
  show ?case
  proof (cases "fault w (ListObjectsV2Command ?b p n j)")
    case (Some e)
    then show ?thesis by (simp add: send_ListObjectsV2_def await_then_def)
  next
    case None
    let ?rows1 = "rows @ rows_of rt w ?b (page_keys page)"
    let ?w1 = "w\<lparr>requests := requests w @ ListObjectsV2Command ?b p n j
                               # map (GetObjectCommand ?b) (page_keys page),
                  console := console w @ logs_of rt w ?b (page_keys page)\<rparr>"
    have list: "send_ListObjectsV2 ?b p n j page w = (Inr page, ?w0)"
      using None by (simp add: send_ListObjectsV2_def)
    have page: "?body page rows ?w0 = (Inr ?rows1, ?w1)"
      by (simp add: scan_page_with_key)
    have eq: "for_await (map (\<lambda>(i, page). send_ListObjectsV2 ?b p n i page)
                 (enumerate j (page # pages))) ?body rows w
          = for_await (map (\<lambda>(i, page). send_ListObjectsV2 ?b p n i page)
                 (enumerate (Suc j) pages)) ?body ?rows1 ?w1"
      using list page by (simp add: await_then_def)
    show ?thesis
      using Cons.IH [where j = "Suc j" and rows = ?rows1 and w = ?w1]
      unfolding eq by (simp add: rows_of_append split: sum.splits)
  qed
qed

lemma rows_of_member:
  "r \<in> set (rows_of rt w b ks) \<Longrightarrow> key r \<in> set ks \<and> fetch_parse rt w b (key r) = Inr (data r)"
  by (auto simp add: rows_of_def split: sum.splits)

lemma fetch_parse_Inr:
  "fetch_parse rt w b k = Inr d \<Longrightarrow>
     \<exists>body. map_of (objects w) (b, k) = Some body \<and> JSON_parse rt body = Inr d"
  by (auto simp add: fetch_parse_def split: option.splits sum.splits)

lemma list_keys_prefix: "k \<in> set (list_keys w b p) \<Longrightarrow> prefix p k"
  by (auto simp add: list_keys_def)

text \<open>
  C9. Whenever \<^verbatim>\<open>getS3DataWithKey(p)\<close> returns, every row it returns carries a key the
  backend listed under the prefix, and its \<^verbatim>\<open>data\<close> is the parsed body of the object the
  store holds under exactly that key.
\<close>

theorem getS3DataWithKey_rows_carry_their_keys:
  assumes "fst (getS3DataWithKey rt p db w) = Inr rows"
  shows "\<forall>r \<in> set rows.
           key r \<in> set (list_keys w (bucket db) p) \<and> prefix p (key r)
           \<and> (\<exists>body. map_of (objects w) (bucket db, key r) = Some body
                       \<and> JSON_parse rt body = Inr (data r))"
proof
  fix r assume r: "r \<in> set rows"
  have "rows = rows_of rt w (bucket db) (list_keys w (bucket db) p)"
    using for_await_with_key_result [where db = db and p = p and n = 1000 and j = 0
        and pages = "list_pages w (bucket db) p 1000" and rt = rt and rows = "[]" and w = w] assms
    by (simp add: getS3DataWithKey_def paginateListObjectsV2_def page_keys_list_pages)
  with r have k: "key r \<in> set (list_keys w (bucket db) p)"
    and f: "fetch_parse rt w (bucket db) (key r) = Inr (data r)"
    by (simp_all add: rows_of_member)
  from k f show "key r \<in> set (list_keys w (bucket db) p) \<and> prefix p (key r)
           \<and> (\<exists>body. map_of (objects w) (bucket db, key r) = Some body
                       \<and> JSON_parse rt body = Inr (data r))"
    by (simp add: list_keys_prefix fetch_parse_Inr)
qed


text \<open>The row of the good order in the example store.\<close>

theorem getS3DataWithKey_rows_carry_their_keys_witness:
  \<open>fst (getS3DataWithKey example_rt ''orders/'' example_db example_world)
     = Inr [\<lparr>key = ''orders/1.json'', data = JObject [(''id'', JNumber 7)]\<rparr>]
   \<and> ''orders/1.json'' \<in> set (list_keys example_world ''media'' ''orders/'')
   \<and> map_of (objects example_world) (''media'', ''orders/1.json'') = Some ''{"id":7}''
   \<and> JSON_parse example_rt ''{"id":7}'' = Inr (JObject [(''id'', JNumber 7)])\<close>
proof -
  have run: "fst (getS3DataWithKey example_rt ''orders/'' example_db example_world)
     = Inr [\<lparr>key = ''orders/1.json'', data = JObject [(''id'', JNumber 7)]\<rparr>]"
    by (simp add: getS3DataWithKey_def paginateListObjectsV2_def list_pages_def list_keys_def
      example_world_def example_db_def example_rt_def chunks.simps send_ListObjectsV2_def
      read_item_with_key_def send_GetObject_def streamToString_def JSON_parse_io_def
      example_parse_def example_texts_def io_defs)
  from getS3DataWithKey_rows_carry_their_keys [OF run] run show ?thesis
    by (simp add: example_world_def example_db_def example_rt_def example_parse_def
        example_texts_def)
qed

lemma getS3DataWithKey_eq:
  assumes "\<forall>i. fault w (ListObjectsV2Command (bucket db) p 1000 i) = None"
  shows "getS3DataWithKey rt p db w =
     (Inr (rows_of rt w (bucket db) (list_keys w (bucket db) p)),
      w\<lparr>requests := requests w
            @ scan_requests (bucket db) p 1000 0 (list_pages w (bucket db) p 1000),
        console := console w @ logs_of rt w (bucket db) (list_keys w (bucket db) p)\<rparr>)"
  using for_await_with_key [where db = db and p = p and n = 1000 and j = 0
        and pages = "list_pages w (bucket db) p 1000" and rt = rt and rows = "[]" and w = w] assms
  by (simp add: getS3DataWithKey_def paginateListObjectsV2_def page_keys_list_pages)

lemma getS3Data_eq:
  assumes "\<forall>i. fault w (ListObjectsV2Command (bucket db) p 1000 i) = None"
  shows "getS3Data rt p db w =
     (Inr (map data (rows_of rt w (bucket db) (list_keys w (bucket db) p))),
      w\<lparr>requests := requests w
            @ scan_requests (bucket db) p 1000 0 (list_pages w (bucket db) p 1000),
        console := console w @ logs_of rt w (bucket db) (list_keys w (bucket db) p)\<rparr>)"
proof -
  have "getS3Data rt p db w = drop_keys (getS3DataWithKey rt p db w)"
    using for_await_drop_keys [of "paginateListObjectsV2 w (bucket db) p 1000" rt db "[]" w]
    by (simp add: getS3Data_def getS3DataWithKey_def)
  with assms show ?thesis
    by (simp add: getS3DataWithKey_eq drop_keys_def)
qed

lemma list_keys_objects_under: "list_keys w b p = map fst (objects_under w b p)"
  by (simp add: list_keys_def objects_under_def comp_def case_prod_unfold)

lemma fetch_parse_listed:
  assumes "fault w (GetObjectCommand b k) = None" and "stream_fault w (b, k) = None"
    and "distinct (map fst (objects w))"
    and "(k, body) \<in> set (objects_under w b p)"
  shows "fetch_parse rt w b k =
           (case JSON_parse rt body of Inl msg \<Rightarrow> Inl (JsError ''SyntaxError'' msg)
            | Inr v \<Rightarrow> Inr v)"
proof -
  from assms(4) have "((b, k), body) \<in> set (objects w)"
    by (auto simp add: objects_under_def)
  with assms(3) have "map_of (objects w) (b, k) = Some body"
    by (rule map_of_is_SomeI)
  with assms(1,2) show ?thesis
    by (simp add: fetch_parse_def)
qed

lemma rows_of_parsed:
  assumes "\<forall>(k, body) \<in> set kbs. fetch_parse rt w b k =
             (case JSON_parse rt body of Inl msg \<Rightarrow> Inl (JsError ''SyntaxError'' msg)
              | Inr v \<Rightarrow> Inr v)"
  shows "map data (rows_of rt w b (map fst kbs)) = parsed_documents rt kbs
         \<and> logs_of rt w b (map fst kbs) = parse_failures rt kbs"
  using assms
proof (induction kbs)
  case Nil
  show ?case by (simp add: rows_of_def logs_of_def parsed_documents_def parse_failures_def)
next
  case (Cons kb kbs)
  obtain k body where kb: "kb = (k, body)" by (cases kb)
  with Cons.prems have f: "fetch_parse rt w b k =
             (case JSON_parse rt body of Inl msg \<Rightarrow> Inl (JsError ''SyntaxError'' msg)
              | Inr v \<Rightarrow> Inr v)"
    by simp
  from Cons have IH: "map data (rows_of rt w b (map fst kbs)) = parsed_documents rt kbs
         \<and> logs_of rt w b (map fst kbs) = parse_failures rt kbs"
    by simp
  have r: "rows_of rt w b (map fst (kb # kbs)) = rows_of rt w b [k] @ rows_of rt w b (map fst kbs)"
    using kb rows_of_Cons [of rt w b k "map fst kbs"] by simp
  have l: "logs_of rt w b (map fst (kb # kbs)) = logs_of rt w b [k] @ logs_of rt w b (map fst kbs)"
    using kb logs_of_Cons [of rt w b k "map fst kbs"] by simp
  have p: "parsed_documents rt (kb # kbs)
             = map data (rows_of rt w b [k]) @ parsed_documents rt kbs"
    using kb f by (simp add: parsed_documents_def rows_of_def split: sum.splits)
  have q: "parse_failures rt (kb # kbs) = logs_of rt w b [k] @ parse_failures rt kbs"
    using kb f by (simp add: parse_failures_def logs_of_def split: sum.splits)
  from r l p q IH show ?case by simp
qed

lemma length_parsed_documents:
  "length (parsed_documents rt kbs)
     = length (filter (\<lambda>(k, body). \<not> isl (JSON_parse rt body)) kbs)"
  by (induction kbs) (auto simp add: parsed_documents_def split: sum.splits)

lemma length_parse_failures:
  "length (parse_failures rt kbs)
     = length (filter (\<lambda>(k, body). isl (JSON_parse rt body)) kbs)"
  by (induction kbs) (auto simp add: parse_failures_def split: sum.splits)

lemma length_rows_logs:
  "length (rows_of rt w b ks) + length (logs_of rt w b ks) = length ks"
  by (induction ks) (simp_all add: rows_of_def logs_of_def split: sum.splits)

text \<open>
  C5. Let the backend answer the listing requests of the scan. Then \<^verbatim>\<open>getS3Data(p)\<close>
  does not throw, whatever happens to the single objects: each listed object is either
  returned or logged, so the rows and the new console lines together are as many as the
  listed keys; and the store is left as it was. Let moreover the backend answer every
  fetch and hold at most one object per key. Then the call returns the parsed documents
  of the objects under the prefix whose bodies parse, in listing order, as many as there
  are such objects; and it logs one line for each object whose body does not parse,
  naming its key, as many as there are such objects.
\<close>

theorem getS3Data_returns_the_valid_documents:
  assumes "\<forall>i. fault w (ListObjectsV2Command (bucket db) p 1000 i) = None"
  shows "\<not> isl (fst (getS3Data rt p db w))
     \<and> length (projr (fst (getS3Data rt p db w))) + length (console (snd (getS3Data rt p db w)))
         = length (list_keys w (bucket db) p) + length (console w)
     \<and> objects (snd (getS3Data rt p db w)) = objects w
     \<and> ((\<forall>k. fault w (GetObjectCommand (bucket db) k) = None)
          \<and> (\<forall>x. stream_fault w x = None) \<and> distinct (map fst (objects w))
        \<longrightarrow> fst (getS3Data rt p db w) = Inr (parsed_documents rt (objects_under w (bucket db) p))
          \<and> console (snd (getS3Data rt p db w))
              = console w @ parse_failures rt (objects_under w (bucket db) p)
          \<and> length (parsed_documents rt (objects_under w (bucket db) p))
              = length (filter (\<lambda>(k, body). \<not> isl (JSON_parse rt body))
                          (objects_under w (bucket db) p))
          \<and> length (parse_failures rt (objects_under w (bucket db) p))
              = length (filter (\<lambda>(k, body). isl (JSON_parse rt body))
                          (objects_under w (bucket db) p)))"
proof -
  let ?b = "bucket db"
  let ?kbs = "objects_under w ?b p"
  have run: "getS3Data rt p db w =
     (Inr (map data (rows_of rt w ?b (list_keys w ?b p))),
      w\<lparr>requests := requests w @ scan_requests ?b p 1000 0 (list_pages w ?b p 1000),
        console := console w @ logs_of rt w ?b (list_keys w ?b p)\<rparr>)"
    using assms by (rule getS3Data_eq)
  have total: "\<not> isl (fst (getS3Data rt p db w))"
    and store: "objects (snd (getS3Data rt p db w)) = objects w"
    by (simp_all add: run)
  have count: "length (projr (fst (getS3Data rt p db w)))
                 + length (console (snd (getS3Data rt p db w)))
               = length (list_keys w ?b p) + length (console w)"
    using length_rows_logs [of rt w ?b "list_keys w ?b p"] by (simp add: run)
  have exact: "fst (getS3Data rt p db w) = Inr (parsed_documents rt ?kbs)
          \<and> console (snd (getS3Data rt p db w)) = console w @ parse_failures rt ?kbs"
    if healthy: "(\<forall>k. fault w (GetObjectCommand ?b k) = None)
          \<and> (\<forall>x. stream_fault w x = None) \<and> distinct (map fst (objects w))"
  proof -
    have "\<forall>(k, body) \<in> set ?kbs. fetch_parse rt w ?b k =
             (case JSON_parse rt body of Inl msg \<Rightarrow> Inl (JsError ''SyntaxError'' msg)
              | Inr v \<Rightarrow> Inr v)"
      using healthy by (auto intro!: fetch_parse_listed)
    then have "map data (rows_of rt w ?b (map fst ?kbs)) = parsed_documents rt ?kbs
         \<and> logs_of rt w ?b (map fst ?kbs) = parse_failures rt ?kbs"
      by (rule rows_of_parsed)
    then show ?thesis
      by (simp add: run list_keys_objects_under)
  qed
  from total count store exact show ?thesis
    by (simp add: length_parsed_documents length_parse_failures)
qed

text \<open>
  The two orders of the example store: one document returned, one line logged. Behind
  the backend that refuses to serve the good order, the call still returns, and the two
  listed objects are accounted for.
\<close>

theorem getS3Data_returns_the_valid_documents_witness:
  "fst (getS3Data example_rt ''orders/'' example_db example_world)
     = Inr [JObject [(''id'', JNumber 7)]]
   \<and> console (snd (getS3Data example_rt ''orders/'' example_db example_world))
     = [ConsoleError ''Error reading orders/2.json:''
          [ArgErr (JsError ''SyntaxError'' ''Unexpected token in JSON'')]]
   \<and> \<not> isl (fst (getS3Data example_rt ''orders/'' example_db unreadable_world))
   \<and> length (projr (fst (getS3Data example_rt ''orders/'' example_db unreadable_world)))
       + length (console (snd (getS3Data example_rt ''orders/'' example_db unreadable_world)))
       = 2"
  using
    getS3Data_returns_the_valid_documents [where w = example_world and db = example_db
      and rt = example_rt and p = "''orders/''"]
    getS3Data_returns_the_valid_documents [where w = unreadable_world and db = example_db
      and rt = example_rt and p = "''orders/''"]
  by (simp add: example_world_def example_db_def example_rt_def example_parse_def
      example_texts_def objects_under_def parsed_documents_def parse_failures_def
      unreadable_world_def list_keys_def)

end
